theory Spec2Isabelle
  imports Main
begin

section \<open>The Druid handler: values, exceptions, responses\<close>

text \<open>
  The source is \<^verbatim>\<open>mindsdb/integrations/handlers/druid_handler/druid_handler.py\<close>,
  the class \<^verbatim>\<open>DruidHandler\<close>. Its methods mutate the handler object and call a
  database driver; both are made explicit: every method takes the state and returns the
  new state together with either the value it returns (\<open>Inr\<close>) or the exception it
  raises (\<open>Inl\<close>). An assignment made before an exception is raised stays visible in
  the returned state, as in Python.
\<close>

text \<open>Python values that occur as configuration values and as fields of fetched rows.\<close>

datatype pyval = PNone | PStr string | PInt int

type_synonym dict = "string \<rightharpoonup> pyval"

text \<open>
  An exception is an instance of a subclass of Python's \<^verbatim>\<open>Exception\<close> (what
  \<^verbatim>\<open>except Exception\<close> catches); the constructor is its class and the argument the
  text that \<^verbatim>\<open>str(e)\<close> gives. \<open>Error\<close> stands for whatever the driver raises.
\<close>

datatype exn =
    KeyError string
  | TypeError string
  | AttributeError string
  | ValueError string
  | Error string

fun str :: "exn \<Rightarrow> string" where
  "str (KeyError m) = m"
| "str (TypeError m) = m"
| "str (AttributeError m) = m"
| "str (ValueError m) = m"
| "str (Error m) = m"

definition quote :: "string \<Rightarrow> string" where
  "quote k = CHR 0x27 # k @ [CHR 0x27]"

text \<open>\<^verbatim>\<open>d[k]\<close> on a dict: a missing key raises \<^verbatim>\<open>KeyError(k)\<close>, whose text is the quoted key.\<close>

definition getitem :: "dict \<Rightarrow> string \<Rightarrow> exn + pyval" where
  "getitem cd k = (case cd k of None \<Rightarrow> Inl (KeyError (quote k)) | Some v \<Rightarrow> Inr v)"

subsection \<open>Rows, column descriptors and data frames\<close>

type_synonym row = "pyval list"

text \<open>
  A column descriptor of the cursor (DB-API: a sequence whose first element is the
  column name): the name, then the remaining elements.
\<close>

type_synonym descriptor = "string \<times> pyval list"

record DataFrame =
  columns :: "string list"
  rows :: "row list"

definition digit :: "nat \<Rightarrow> char" where
  "digit n = ''0123456789'' ! n"

function str_nat :: "nat \<Rightarrow> string" where
  "str_nat n = (if n < 10 then [digit n] else str_nat (n div 10) @ [digit (n mod 10)])"
  by pat_completeness auto
termination
  by (relation "measure id") auto

definition width :: "row list \<Rightarrow> nat" where
  "width data = fold max (map length data) 0"

definition pad :: "nat \<Rightarrow> row \<Rightarrow> row" where
  "pad w r = r @ replicate (w - length r) PNone"

text \<open>
  Modelled from the spec: the payload of a Table envelope, an ordered rectangular
  dataset of column names and rows (the spec's data model), which the handler builds with
  \<^verbatim>\<open>pd.DataFrame(data, columns=cols)\<close> from the list of fetched row tuples; pandas is an
  external library. A frame is its column names and its rows, each cell being the value
  that was fetched: the storage type that pandas chooses for a column lies below this
  level and is not modelled. The frame is as wide as the longest row, shorter rows are
  filled with missing values, and a list of column names of another length is refused
  with a \<^verbatim>\<open>ValueError\<close>.
\<close>

definition pd_DataFrame :: "row list \<Rightarrow> string list \<Rightarrow> exn + DataFrame" where
  "pd_DataFrame data cols =
     (let w = width data in
      if length cols = w
      then Inr \<lparr>columns = cols, rows = map (pad w) data\<rparr>
      else Inl (ValueError (str_nat (length cols) @ '' columns passed, passed data had ''
                              @ str_nat w @ '' columns'')))"

text \<open>
  \<^verbatim>\<open>df[[l1, l2]]\<close>: the columns with these labels, in the order asked for (a label
  that several columns carry selects all of them); a label that no column carries raises
  \<^verbatim>\<open>KeyError\<close> (the wording of its text differs between pandas versions).
\<close>

definition positions :: "string list \<Rightarrow> string \<Rightarrow> nat list" where
  "positions cols l = filter (\<lambda>i. cols ! i = l) [0..<length cols]"

definition df_select :: "DataFrame \<Rightarrow> string list \<Rightarrow> exn + DataFrame" where
  "df_select df labels =
     (let missing = filter (\<lambda>l. \<not> List.member (columns df) l) labels in
      if missing = []
      then (let idx = concat (map (positions (columns df)) labels) in
            Inr \<lparr>columns = map (\<lambda>i. columns df ! i) idx,
                 rows = map (\<lambda>r. map (\<lambda>i. r ! i) idx) (rows df)\<rparr>)
      else Inl (KeyError (''['' @ concat (map quote missing) @ ''] not in index'')))"

text \<open>\<^verbatim>\<open>df.rename(columns={...})\<close>: a label that is a key of the mapping is replaced.\<close>

definition df_rename :: "DataFrame \<Rightarrow> (string \<rightharpoonup> string) \<Rightarrow> DataFrame" where
  "df_rename df m =
     df\<lparr>columns := map (\<lambda>l. case m l of None \<Rightarrow> l | Some l' \<Rightarrow> l') (columns df)\<rparr>"

subsection \<open>Response envelopes\<close>

text \<open>
  Modelled from the spec: \<^verbatim>\<open>RESPONSE_TYPE\<close>, \<^verbatim>\<open>HandlerResponse\<close> and
  \<^verbatim>\<open>HandlerStatusResponse\<close> of \<^verbatim>\<open>mindsdb.integrations.libs.response\<close>, which
  the handler imports. The envelope has the three variants Table (a data frame), Ok (no
  payload) and Error (a message); the status has a success flag and an error message.
  The fields are the ones the handler sets and reads, with the defaults \<^verbatim>\<open>None\<close>.
\<close>

datatype RESPONSE_TYPE = TABLE | OK | ERROR

record Response =
  resp_type :: RESPONSE_TYPE
  data_frame :: "DataFrame option"
  error_message :: "string option"

record StatusResponse =
  success :: bool
  status_error_message :: "string option"

section \<open>The driver and the handler state\<close>

type_synonym conn = nat
type_synonym cursor = nat

text \<open>
  Modelled from the spec: the wire driver (\<^verbatim>\<open>pydruid.db\<close>), an external library.
  It is a parameter of every method: a record of functions over a state \<open>'w\<close> of the
  outside world (the database, the network, the driver's own objects). Following the
  driver interface and the error taxonomy of the spec, opening a connection and
  executing, fetching, reading the result's description and committing can raise;
  creating a cursor and closing a cursor or a connection return.
\<close>

record 'w driver =
  drv_connect :: "pyval \<Rightarrow> pyval \<Rightarrow> pyval \<Rightarrow> pyval \<Rightarrow> pyval \<Rightarrow> pyval \<Rightarrow> 'w \<Rightarrow> (exn + conn) \<times> 'w"
  conn_cursor :: "conn \<Rightarrow> 'w \<Rightarrow> cursor \<times> 'w"
  conn_commit :: "conn \<Rightarrow> 'w \<Rightarrow> (exn + unit) \<times> 'w"
  conn_close :: "conn \<Rightarrow> 'w \<Rightarrow> 'w"
  cur_execute :: "cursor \<Rightarrow> string \<Rightarrow> 'w \<Rightarrow> (exn + unit) \<times> 'w"
  cur_fetchall :: "cursor \<Rightarrow> 'w \<Rightarrow> (exn + row list) \<times> 'w"
  cur_description :: "cursor \<Rightarrow> 'w \<Rightarrow> (exn + descriptor list) \<times> 'w"
  cur_close :: "cursor \<Rightarrow> 'w \<Rightarrow> 'w"

text \<open>The calls the handler makes to the driver, in the order it makes them.\<close>

datatype event =
    Open
  | Cursor conn
  | Execute cursor string
  | Fetchall cursor
  | Description cursor
  | Commit conn
  | CloseCursor cursor
  | Close conn

text \<open>
  The state: the attributes of the handler object that its methods read
  (\<^verbatim>\<open>self.name\<close>, \<^verbatim>\<open>self.connection_data\<close>, \<^verbatim>\<open>self.connection\<close>, which is
  \<^verbatim>\<open>None\<close> or a connection, and \<^verbatim>\<open>self.is_connected\<close>), the state of the outside
  world, and the log of the driver calls made so far. \<^verbatim>\<open>self.parser\<close>,
  \<^verbatim>\<open>self.dialect\<close> and \<^verbatim>\<open>self.kwargs\<close> are set once and read by none of the
  methods below.
\<close>

record 'w state =
  name :: string
  connection_data :: dict
  connection :: "conn option"
  is_connected :: bool
  world :: 'w
  calls :: "event list"

definition log_call :: "event \<Rightarrow> 'w \<Rightarrow> 'w state \<Rightarrow> 'w state" where
  "log_call ev w s = s\<lparr>world := w, calls := calls s @ [ev]\<rparr>"

definition open_calls :: "event list \<Rightarrow> nat" where
  "open_calls es = length (filter (\<lambda>ev. case ev of Open \<Rightarrow> True | _ \<Rightarrow> False) es)"

definition commit_calls :: "event list \<Rightarrow> nat" where
  "commit_calls es = length (filter (\<lambda>ev. case ev of Commit c \<Rightarrow> True | _ \<Rightarrow> False) es)"

definition close_calls :: "event list \<Rightarrow> nat" where
  "close_calls es = length (filter (\<lambda>ev. case ev of Close c \<Rightarrow> True | _ \<Rightarrow> False) es)"

section \<open>The methods of \<^verbatim>\<open>DruidHandler\<close>\<close>

subsection \<open>\<^verbatim>\<open>__init__\<close>\<close>

definition optional_parameters :: "string list" where
  "optional_parameters = [''user'', ''password'']"

text \<open>
  Lines 42 to 51: the loop over the optional parameters, then the defaults of
  \<^verbatim>\<open>path\<close> and \<^verbatim>\<open>scheme\<close>.
\<close>

definition init_connection_data :: "dict \<Rightarrow> dict" where
  "init_connection_data cd0 =
     (let cd1 = fold (\<lambda>parameter cd. if cd parameter = None then cd(parameter \<mapsto> PNone) else cd)
                  optional_parameters cd0;
          cd2 = (if cd1 ''path'' = None then cd1(''path'' \<mapsto> PStr ''/druid/v2/sql/'') else cd1);
          cd3 = (if cd2 ''scheme'' = None then cd2(''scheme'' \<mapsto> PStr ''http'') else cd2)
      in cd3)"

text \<open>
  \<^verbatim>\<open>connection_data\<close> is an \<^verbatim>\<open>Optional[dict]\<close>: on \<^verbatim>\<open>None\<close> the first membership
  test raises \<^verbatim>\<open>TypeError\<close>. The handler starts disconnected, with no connection, in
  the world \<open>w\<close> it is created in.
\<close>

definition DruidHandler_init :: "string \<Rightarrow> dict option \<Rightarrow> 'w \<Rightarrow> exn + 'w state" where
  "DruidHandler_init nm cd0 w =
     (case cd0 of
        None \<Rightarrow> Inl (TypeError (''argument of type '' @ quote ''NoneType'' @ '' is not iterable''))
      | Some cd \<Rightarrow>
          Inr \<lparr>name = nm, connection_data = init_connection_data cd, connection = None,
               is_connected = False, world = w, calls = []\<rparr>)"

subsection \<open>\<^verbatim>\<open>connect\<close> and \<^verbatim>\<open>disconnect\<close>\<close>

text \<open>
  The six keyword arguments of the driver's \<^verbatim>\<open>connect\<close>, looked up in the order the
  call writes them; the first missing key raises.
\<close>

definition connect_args :: "dict \<Rightarrow> exn + (pyval \<times> pyval \<times> pyval \<times> pyval \<times> pyval \<times> pyval)" where
  "connect_args cd =
     (case getitem cd ''host'' of Inl e \<Rightarrow> Inl e | Inr host \<Rightarrow>
     (case getitem cd ''port'' of Inl e \<Rightarrow> Inl e | Inr port \<Rightarrow>
     (case getitem cd ''path'' of Inl e \<Rightarrow> Inl e | Inr path \<Rightarrow>
     (case getitem cd ''scheme'' of Inl e \<Rightarrow> Inl e | Inr scheme \<Rightarrow>
     (case getitem cd ''user'' of Inl e \<Rightarrow> Inl e | Inr user \<Rightarrow>
     (case getitem cd ''password'' of Inl e \<Rightarrow> Inl e | Inr password \<Rightarrow>
        Inr (host, port, path, scheme, user, password)))))))"

text \<open>
  \<^verbatim>\<open>connect\<close> returns \<^verbatim>\<open>self.connection\<close>. When the driver's call raises, neither
  \<^verbatim>\<open>self.connection\<close> nor \<^verbatim>\<open>self.is_connected\<close> has been assigned.
\<close>

definition connect :: "'w driver \<Rightarrow> 'w state \<Rightarrow> (exn + conn option) \<times> 'w state" where
  "connect d s =
     (if is_connected s then (Inr (connection s), s)
      else
        case connect_args (connection_data s) of
          Inl e \<Rightarrow> (Inl e, s)
        | Inr (host, port, path, scheme, user, password) \<Rightarrow>
            (case drv_connect d host port path scheme user password (world s) of
               (Inl e, w) \<Rightarrow> (Inl e, log_call Open w s)
             | (Inr c, w) \<Rightarrow>
                 (Inr (Some c), (log_call Open w s)\<lparr>connection := Some c, is_connected := True\<rparr>)))"

text \<open>
  \<^verbatim>\<open>disconnect\<close> returns \<^verbatim>\<open>None\<close> when there is nothing to close and
  \<^verbatim>\<open>self.is_connected\<close> (then \<^verbatim>\<open>False\<close>) otherwise. \<^verbatim>\<open>self.connection\<close> keeps the
  closed connection.
\<close>

definition disconnect :: "'w driver \<Rightarrow> 'w state \<Rightarrow> (exn + bool option) \<times> 'w state" where
  "disconnect d s =
     (if \<not> is_connected s then (Inr None, s)
      else
        case connection s of
          None \<Rightarrow> (Inl (AttributeError (quote ''NoneType'' @ '' object has no attribute ''
                                          @ quote ''close'')), s)
        | Some c \<Rightarrow>
            (Inr (Some False), (log_call (Close c) (conn_close d c (world s)) s)\<lparr>is_connected := False\<rparr>))"

subsection \<open>\<^verbatim>\<open>check_connection\<close>\<close>

text \<open>
  The \<^verbatim>\<open>try\<close> calls \<^verbatim>\<open>connect\<close>; the \<^verbatim>\<open>finally\<close> block disconnects after a
  success that opened the connection, and resets the flag after a failure. The log
  message has no effect on the state.
\<close>

definition check_connection :: "'w driver \<Rightarrow> 'w state \<Rightarrow> (exn + StatusResponse) \<times> 'w state" where
  "check_connection d s =
     (let need_to_close = \<not> is_connected s in
      case connect d s of
        (Inl e, s1) \<Rightarrow>
          (Inr \<lparr>success = False, status_error_message = Some (str e)\<rparr>,
           if is_connected s1 then s1\<lparr>is_connected := False\<rparr> else s1)
      | (Inr c, s1) \<Rightarrow>
          (let response = \<lparr>success = True, status_error_message = None\<rparr> in
           if need_to_close
           then (case disconnect d s1 of
                   (Inl e, s2) \<Rightarrow> (Inl e, s2)
                 | (Inr r, s2) \<Rightarrow> (Inr response, s2))
           else (Inr response, s1)))"

subsection \<open>\<^verbatim>\<open>native_query\<close>\<close>

definition table_response :: "DataFrame \<Rightarrow> Response" where
  "table_response df = \<lparr>resp_type = TABLE, data_frame = Some df, error_message = None\<rparr>"

definition ok_response :: Response where
  "ok_response = \<lparr>resp_type = OK, data_frame = None, error_message = None\<rparr>"

definition error_response :: "exn \<Rightarrow> Response" where
  "error_response e = \<lparr>resp_type = ERROR, data_frame = None, error_message = Some (str e)\<rparr>"

text \<open>
  Lines 135 to 154, the \<^verbatim>\<open>try\<close> statement: every exception raised inside it becomes
  an Error response, so the block always yields a response.
\<close>

definition try_query :: "'w driver \<Rightarrow> conn \<Rightarrow> cursor \<Rightarrow> string \<Rightarrow> 'w state \<Rightarrow> Response \<times> 'w state" where
  "try_query d c cur query s =
     (case cur_execute d cur query (world s) of
        (Inl e, w1) \<Rightarrow> (error_response e, log_call (Execute cur query) w1 s)
      | (Inr u, w1) \<Rightarrow>
          (let s1 = log_call (Execute cur query) w1 s in
           case cur_fetchall d cur (world s1) of
             (Inl e, w2) \<Rightarrow> (error_response e, log_call (Fetchall cur) w2 s1)
           | (Inr result, w2) \<Rightarrow>
               (let s2 = log_call (Fetchall cur) w2 s1 in
                if result \<noteq> []
                then (case cur_description d cur (world s2) of
                        (Inl e, w3) \<Rightarrow> (error_response e, log_call (Description cur) w3 s2)
                      | (Inr description, w3) \<Rightarrow>
                          (case pd_DataFrame result (map fst description) of
                             Inl e \<Rightarrow> (error_response e, log_call (Description cur) w3 s2)
                           | Inr df \<Rightarrow> (table_response df, log_call (Description cur) w3 s2)))
                else (case conn_commit d c (world s2) of
                        (Inl e, w3) \<Rightarrow> (error_response e, log_call (Commit c) w3 s2)
                      | (Inr u', w3) \<Rightarrow> (ok_response, log_call (Commit c) w3 s2)))))"

text \<open>
  \<^verbatim>\<open>connect\<close> and \<^verbatim>\<open>connection.cursor()\<close> stand before the \<^verbatim>\<open>try\<close>: an exception
  of \<^verbatim>\<open>connect\<close> leaves the method, and so does the \<^verbatim>\<open>AttributeError\<close> of
  \<^verbatim>\<open>None.cursor()\<close>. After the \<^verbatim>\<open>try\<close> the cursor is closed, and the connection
  too when this call opened it.
\<close>

definition native_query :: "'w driver \<Rightarrow> string \<Rightarrow> 'w state \<Rightarrow> (exn + Response) \<times> 'w state" where
  "native_query d query s =
     (let need_to_close = \<not> is_connected s in
      case connect d s of
        (Inl e, s1) \<Rightarrow> (Inl e, s1)
      | (Inr None, s1) \<Rightarrow>
          (Inl (AttributeError (quote ''NoneType'' @ '' object has no attribute ''
                                 @ quote ''cursor'')), s1)
      | (Inr (Some c), s1) \<Rightarrow>
          (case conn_cursor d c (world s1) of
             (cur, w2) \<Rightarrow>
               (case try_query d c cur query (log_call (Cursor c) w2 s1) of
                  (response, s3) \<Rightarrow>
                    (let s4 = log_call (CloseCursor cur) (cur_close d cur (world s3)) s3 in
                     if need_to_close
                     then (case disconnect d s4 of
                             (Inl e, s5) \<Rightarrow> (Inl e, s5)
                           | (Inr r, s5) \<Rightarrow> (Inr response, s5))
                     else (Inr response, s4)))))"

subsection \<open>\<^verbatim>\<open>get_tables\<close>\<close>

definition get_tables_query :: string where
  "get_tables_query =
     CHR 0x0A # ''            SELECT *'' @
     CHR 0x0A # ''            FROM INFORMATION_SCHEMA.TABLES'' @
     CHR 0x0A # ''        ''"

text \<open>
  \<^verbatim>\<open>result.data_frame\<close> is \<^verbatim>\<open>None\<close> in an Ok and in an Error response; subscripting
  \<^verbatim>\<open>None\<close> raises \<^verbatim>\<open>TypeError\<close>.
\<close>

definition get_tables :: "'w driver \<Rightarrow> 'w state \<Rightarrow> (exn + Response) \<times> 'w state" where
  "get_tables d s =
     (case native_query d get_tables_query s of
        (Inl e, s1) \<Rightarrow> (Inl e, s1)
      | (Inr result, s1) \<Rightarrow>
          (case data_frame result of
             None \<Rightarrow> (Inl (TypeError (quote ''NoneType'' @ '' object is not subscriptable'')), s1)
           | Some df \<Rightarrow>
               (case df_select df [''TABLE_NAME'', ''TABLE_TYPE''] of
                  Inl e \<Rightarrow> (Inl e, s1)
                | Inr df' \<Rightarrow>
                    (Inr (result\<lparr>data_frame :=
                            Some (df_rename df' [''TABLE_NAME'' \<mapsto> ''table_name'',
                                                 ''TABLE_TYPE'' \<mapsto> ''table_type''])\<rparr>), s1))))"

section \<open>A scripted driver and two handler states\<close>

text \<open>
  A driver over a world without state, whose calls answer as scripted: \<open>op\<close> for
  opening a connection, \<open>ex\<close> for \<^verbatim>\<open>execute\<close>, \<open>fe\<close> for \<^verbatim>\<open>fetchall\<close>, \<open>de\<close> for
  \<^verbatim>\<open>description\<close> and \<open>cm\<close> for \<^verbatim>\<open>commit\<close>. It instantiates the theorems below at
  concrete runs.
\<close>

definition mock :: "(exn + conn) \<Rightarrow> (exn + unit) \<Rightarrow> (exn + row list) \<Rightarrow> (exn + descriptor list)
                     \<Rightarrow> (exn + unit) \<Rightarrow> unit driver" where
  "mock op ex fe de cm =
     \<lparr>drv_connect = (\<lambda>host port path scheme user password w. (op, w)),
      conn_cursor = (\<lambda>c w. (1, w)),
      conn_commit = (\<lambda>c w. (cm, w)),
      conn_close = (\<lambda>c w. w),
      cur_execute = (\<lambda>cur q w. (ex, w)),
      cur_fetchall = (\<lambda>cur w. (fe, w)),
      cur_description = (\<lambda>cur w. (de, w)),
      cur_close = (\<lambda>cur w. w)\<rparr>"

text \<open>The configuration of the spec's scenario, \<^verbatim>\<open>{host: "localhost", port: 8888}\<close>.\<close>

definition localhost_config :: dict where
  "localhost_config = [''host'' \<mapsto> PStr ''localhost'', ''port'' \<mapsto> PInt 8888]"

text \<open>The handler just initialised with it, and the same handler after a first \<^verbatim>\<open>connect\<close>.\<close>

definition fresh :: "unit state" where
  "fresh = \<lparr>name = ''druid'', connection_data = init_connection_data localhost_config,
            connection = None, is_connected = False, world = (), calls = []\<rparr>"

definition opened :: "unit state" where
  "opened = fresh\<lparr>connection := Some 5, is_connected := True, calls := [Open]\<rparr>"

section \<open>Basic facts\<close>

lemma log_call_simps [simp]:
  "name (log_call ev w s) = name s"
  "connection_data (log_call ev w s) = connection_data s"
  "connection (log_call ev w s) = connection s"
  "is_connected (log_call ev w s) = is_connected s"
  "world (log_call ev w s) = w"
  "calls (log_call ev w s) = calls s @ [ev]"
  by (simp_all add: log_call_def)

lemma open_calls_simps [simp]:
  "open_calls [] = 0"
  "open_calls (ev # es) = (case ev of Open \<Rightarrow> 1 | _ \<Rightarrow> 0) + open_calls es"
  "open_calls (es @ fs) = open_calls es + open_calls fs"
  by (simp_all add: open_calls_def split: event.splits)

lemma commit_calls_simps [simp]:
  "commit_calls [] = 0"
  "commit_calls (ev # es) = (case ev of Commit c \<Rightarrow> 1 | _ \<Rightarrow> 0) + commit_calls es"
  "commit_calls (es @ fs) = commit_calls es + commit_calls fs"
  by (simp_all add: commit_calls_def split: event.splits)

lemma close_calls_simps [simp]:
  "close_calls [] = 0"
  "close_calls (ev # es) = (case ev of Close c \<Rightarrow> 1 | _ \<Rightarrow> 0) + close_calls es"
  "close_calls (es @ fs) = close_calls es + close_calls fs"
  by (simp_all add: close_calls_def split: event.splits)

text \<open>On a connected handler \<^verbatim>\<open>connect\<close> returns the stored connection and changes nothing.\<close>

lemma connect_connected: "is_connected s \<Longrightarrow> connect d s = (Inr (connection s), s)"
  by (simp add: connect_def)

text \<open>What a \<^verbatim>\<open>connect\<close> that returns leaves behind.\<close>

lemma connect_success:
  assumes "connect d s = (Inr h, s1)"
  shows "is_connected s1 \<and> connection s1 = h \<and> connection_data s1 = connection_data s
     \<and> commit_calls (calls s1) = commit_calls (calls s)
     \<and> close_calls (calls s1) = close_calls (calls s)
     \<and> open_calls (calls s1) = open_calls (calls s) + (if is_connected s then 0 else 1)
     \<and> (is_connected s \<longrightarrow> s1 = s)"
  using assms
  by (auto simp: connect_def split: if_splits sum.splits prod.splits)

lemma connect_success_handle:
  "\<not> is_connected s \<Longrightarrow> connect d s = (Inr h, s1) \<Longrightarrow> \<exists>c. h = Some c"
  by (auto simp: connect_def split: if_splits sum.splits prod.splits)

text \<open>The \<^verbatim>\<open>try\<close> statement touches neither the handler's attributes nor the connection.\<close>

lemma try_query_frame:
  assumes "try_query d c cur q s = (r, s')"
  shows "is_connected s' = is_connected s \<and> connection s' = connection s
     \<and> connection_data s' = connection_data s
     \<and> close_calls (calls s') = close_calls (calls s)
     \<and> open_calls (calls s') = open_calls (calls s)"
  using assms
  by (auto simp: try_query_def Let_def split: if_splits sum.splits prod.splits)

lemma connect_args_fresh:
  "connect_args (connection_data fresh) =
     Inr (PStr ''localhost'', PInt 8888, PStr ''/druid/v2/sql/'', PStr ''http'', PNone, PNone)"
  by (simp add: fresh_def localhost_config_def init_connection_data_def optional_parameters_def
        connect_args_def getitem_def)

lemma connect_fresh_ok: "connect (mock (Inr 5) ex fe de cm) fresh = (Inr (Some 5), opened)"
  by (simp add: connect_def connect_args_fresh mock_def log_call_def opened_def)
     (simp add: fresh_def)

declare str_nat.simps [simp del]

lemma mock_simps [simp]:
  "drv_connect (mock op ex fe de cm) = (\<lambda>host port path scheme user password w. (op, w))"
  "conn_cursor (mock op ex fe de cm) = (\<lambda>c w. (1, w))"
  "conn_commit (mock op ex fe de cm) = (\<lambda>c w. (cm, w))"
  "conn_close (mock op ex fe de cm) = (\<lambda>c w. w)"
  "cur_execute (mock op ex fe de cm) = (\<lambda>cur q w. (ex, w))"
  "cur_fetchall (mock op ex fe de cm) = (\<lambda>cur w. (fe, w))"
  "cur_description (mock op ex fe de cm) = (\<lambda>cur w. (de, w))"
  "cur_close (mock op ex fe de cm) = (\<lambda>cur w. w)"
  by (simp_all add: mock_def)

lemma fresh_simps [simp]:
  "is_connected fresh = False" "connection fresh = None" "calls fresh = []" "world fresh = ()"
  by (simp_all add: fresh_def)

lemma opened_simps [simp]:
  "is_connected opened = True" "connection opened = Some 5" "calls opened = [Open]"
  "world opened = ()"
  by (simp_all add: opened_def fresh_def)

text \<open>
  What \<^verbatim>\<open>native_query\<close> does once \<^verbatim>\<open>connect\<close> has returned a connection: it returns
  the response of the \<^verbatim>\<open>try\<close> statement, and closes the connection exactly when the
  handler was disconnected at entry.
\<close>

lemma native_query_after_connect:
  assumes "connect d s = (Inr (Some c), s1)"
      and "conn_cursor d c (world s1) = (cur, w2)"
      and "try_query d c cur q (log_call (Cursor c) w2 s1) = (r, s3)"
  shows "\<exists>s'. native_query d q s = (Inr r, s') \<and> is_connected s' = is_connected s
            \<and> connection s' = Some c
            \<and> close_calls (calls s') = close_calls (calls s) + (if is_connected s then 0 else 1)
            \<and> commit_calls (calls s') = commit_calls (calls s3)"
proof -
  have s1: "is_connected s1" "connection s1 = Some c" "close_calls (calls s1) = close_calls (calls s)"
    using connect_success[OF assms(1)] by simp_all
  have s3: "is_connected s3" "connection s3 = Some c" "close_calls (calls s3) = close_calls (calls s)"
    using try_query_frame[OF assms(3)] s1 by simp_all
  show ?thesis
  proof (cases "is_connected s")
    case True
    then show ?thesis using assms s3 by (simp add: native_query_def)
  next
    case False
    then show ?thesis using assms s3 by (simp add: native_query_def disconnect_def)
  qed
qed

lemma native_query_connected_frame:
  assumes "is_connected s"
  shows "is_connected (snd (native_query d q s))
       \<and> connection (snd (native_query d q s)) = connection s
       \<and> close_calls (calls (snd (native_query d q s))) = close_calls (calls s)"
proof (cases "connection s")
  case None
  then show ?thesis
    using assms connect_connected[OF assms, of d] by (simp add: native_query_def)
next
  case (Some c)
  obtain cur w2 where cu: "conn_cursor d c (world s) = (cur, w2)"
    by (cases "conn_cursor d c (world s)")
  obtain r s3 where t: "try_query d c cur q (log_call (Cursor c) w2 s) = (r, s3)"
    by (cases "try_query d c cur q (log_call (Cursor c) w2 s)")
  have "connect d s = (Inr (Some c), s)"
    using connect_connected[OF assms, of d] Some by simp
  from native_query_after_connect[OF this cu t] assms Some
  show ?thesis by auto
qed

text \<open>The branches of the \<^verbatim>\<open>try\<close> statement.\<close>

lemma try_query_execute_raises:
  "cur_execute d cur q (world s) = (Inl e, w) \<Longrightarrow>
   try_query d c cur q s = (error_response e, log_call (Execute cur q) w s)"
  by (simp add: try_query_def)

lemma try_query_fetchall_raises:
  "cur_execute d cur q (world s) = (Inr u, w3) \<Longrightarrow> cur_fetchall d cur w3 = (Inl e, w) \<Longrightarrow>
   try_query d c cur q s = (error_response e, log_call (Fetchall cur) w (log_call (Execute cur q) w3 s))"
  by (simp add: try_query_def)

lemma try_query_commit:
  "cur_execute d cur q (world s) = (Inr u, w3) \<Longrightarrow> cur_fetchall d cur w3 = (Inr [], w4) \<Longrightarrow>
   conn_commit d c w4 = (rc, w) \<Longrightarrow>
   try_query d c cur q s =
     (case rc of Inl e \<Rightarrow> error_response e | Inr u' \<Rightarrow> ok_response,
      log_call (Commit c) w (log_call (Fetchall cur) w4 (log_call (Execute cur q) w3 s)))"
  by (simp add: try_query_def split: sum.splits)

lemma try_query_rows:
  "cur_execute d cur q (world s) = (Inr u, w3) \<Longrightarrow> cur_fetchall d cur w3 = (Inr result, w4) \<Longrightarrow>
   result \<noteq> [] \<Longrightarrow> cur_description d cur w4 = (Inr description, w5) \<Longrightarrow>
   pd_DataFrame result (map fst description) = Inr df \<Longrightarrow>
   try_query d c cur q s =
     (table_response df,
      log_call (Description cur) w5 (log_call (Fetchall cur) w4 (log_call (Execute cur q) w3 s)))"
  by (simp add: try_query_def)

text \<open>Rows that all have as many fields as there are column names make a frame as they are.\<close>

lemma width_rect: "list_all (\<lambda>r. length r = n) data \<Longrightarrow> data \<noteq> [] \<Longrightarrow> width data = n"
proof -
  have "list_all (\<lambda>r. length r = n) data \<Longrightarrow>
        fold max (map length data) m = (if data = [] then m else max n m)" for m
    by (induction data arbitrary: m) (auto simp: max_def)
  then show "list_all (\<lambda>r. length r = n) data \<Longrightarrow> data \<noteq> [] \<Longrightarrow> width data = n"
    by (simp add: width_def)
qed

lemma pad_rect: "list_all (\<lambda>r. length r = n) data \<Longrightarrow> map (pad n) data = data"
  by (induction data) (auto simp: pad_def)

lemma pd_DataFrame_rect:
  "list_all (\<lambda>r. length r = length cols) data \<Longrightarrow> data \<noteq> [] \<Longrightarrow>
   pd_DataFrame data cols = Inr \<lparr>columns = cols, rows = data\<rparr>"
  by (simp add: pd_DataFrame_def width_rect pad_rect)

text \<open>The effective configuration, key by key.\<close>

lemma init_connection_data_apply:
  "init_connection_data cd k =
     (case cd k of
        Some v \<Rightarrow> Some v
      | None \<Rightarrow>
          if k = ''user'' \<or> k = ''password'' then Some PNone
          else if k = ''path'' then Some (PStr ''/druid/v2/sql/'')
          else if k = ''scheme'' then Some (PStr ''http'')
          else None)"
  by (simp add: init_connection_data_def optional_parameters_def Let_def split: option.splits)

text \<open>The response of a run on the handler \<open>fresh\<close>, through a driver whose open succeeds.\<close>

lemma native_query_fresh:
  "fst (native_query (mock (Inr 5) ex fe de cm) q fresh)
     = Inr (fst (try_query (mock (Inr 5) ex fe de cm) 5 1 q (log_call (Cursor 5) () opened)))"
proof -
  obtain r s3 where t: "try_query (mock (Inr 5) ex fe de cm) 5 1 q (log_call (Cursor 5) () opened) = (r, s3)"
    by (cases "try_query (mock (Inr 5) ex fe de cm) 5 1 q (log_call (Cursor 5) () opened)")
  have "conn_cursor (mock (Inr 5) ex fe de cm) 5 (world opened) = (1, ())" by simp
  from native_query_after_connect[OF connect_fresh_ok this t] t
  show ?thesis by auto
qed

section \<open>The connection manager\<close>

text \<open>
  C10. When the handler is connected at entry, \<^verbatim>\<open>check_connection\<close> returns
  success = true with no error message and leaves the whole state as it was: the flag
  stays set, the log of driver calls gets no entry (the driver's open is not called),
  and the outside world is not touched. This holds for every driver, also one whose
  database is gone, so the check cannot detect a dead connection once the flag is set.
\<close>

theorem check_connection_connected:
  "is_connected s \<Longrightarrow>
   check_connection d s = (Inr \<lparr>success = True, status_error_message = None\<rparr>, s)"
  by (simp add: check_connection_def connect_connected)

theorem check_connection_connected_witness:
  "is_connected opened \<and>
   check_connection (mock (Inl (Error ''unreachable'')) (Inr ()) (Inr []) (Inr []) (Inr ())) opened
     = (Inr \<lparr>success = True, status_error_message = None\<rparr>, opened)"
  using check_connection_connected
    [of opened "mock (Inl (Error ''unreachable'')) (Inr ()) (Inr []) (Inr []) (Inr ())"]
  by (simp add: opened_def)

text \<open>
  C8. \<^verbatim>\<open>connect\<close> on a connected handler returns the stored connection and leaves the
  state unchanged. Hence after a first \<^verbatim>\<open>connect\<close> that returned on a disconnected
  handler, a second \<^verbatim>\<open>connect\<close> returns the same handle and the same state, and the
  driver's open has been called exactly once over the two calls.
\<close>

theorem connect_twice:
  "(is_connected s \<longrightarrow> connect d s = (Inr (connection s), s)) \<and>
   (\<not> is_connected s \<and> connect d s = (Inr h, s1) \<longrightarrow>
      connect d s1 = (Inr h, s1) \<and> open_calls (calls s1) = open_calls (calls s) + 1)"
  using connect_success[of d s h s1] connect_connected[of s1 d] connect_connected[of s d]
  by auto

theorem connect_twice_witness:
  "\<not> is_connected fresh \<and>
   connect (mock (Inr 5) (Inr ()) (Inr []) (Inr []) (Inr ())) fresh = (Inr (Some 5), opened) \<and>
   connect (mock (Inr 5) (Inr ()) (Inr []) (Inr []) (Inr ())) opened = (Inr (Some 5), opened) \<and>
   open_calls (calls fresh) = 0 \<and> open_calls (calls opened) = 1"
  using connect_twice [of fresh "mock (Inr 5) (Inr ()) (Inr []) (Inr []) (Inr ())" "Some 5" opened]
    connect_fresh_ok [of "Inr ()" "Inr []" "Inr []" "Inr ()"]
  by (simp add: fresh_def)

text \<open>
  C7. When the handler is disconnected before \<^verbatim>\<open>check_connection\<close> and the probe's
  \<^verbatim>\<open>connect\<close> returns, \<^verbatim>\<open>check_connection\<close> returns success = true, the handler is
  disconnected again afterwards, and the connection opened for the probe has been closed
  (one more close call in the log).
\<close>

theorem check_connection_probe:
  assumes "\<not> is_connected s" and "connect d s = (Inr h, s1)"
  shows "\<exists>s2. check_connection d s = (Inr \<lparr>success = True, status_error_message = None\<rparr>, s2)
           \<and> \<not> is_connected s2 \<and> close_calls (calls s2) = close_calls (calls s) + 1"
proof -
  obtain c where h: "h = Some c" using connect_success_handle[OF assms] by blast
  have s1: "is_connected s1" "connection s1 = Some c" "close_calls (calls s1) = close_calls (calls s)"
    using connect_success[OF assms(2)] h by simp_all
  show ?thesis
    using assms s1 by (simp add: check_connection_def disconnect_def)
qed

theorem check_connection_probe_witness:
  "\<not> is_connected fresh \<and>
   connect (mock (Inr 5) (Inr ()) (Inr []) (Inr []) (Inr ())) fresh = (Inr (Some 5), opened) \<and>
   (\<exists>s2. check_connection (mock (Inr 5) (Inr ()) (Inr []) (Inr []) (Inr ())) fresh
            = (Inr \<lparr>success = True, status_error_message = None\<rparr>, s2)
          \<and> \<not> is_connected s2 \<and> close_calls (calls s2) = 1)"
  using check_connection_probe
      [of fresh "mock (Inr 5) (Inr ()) (Inr []) (Inr []) (Inr ())" "Some 5" opened]
    connect_fresh_ok [of "Inr ()" "Inr []" "Inr []" "Inr ()"]
  by (simp add: fresh_def)

section \<open>The raw query executor\<close>

text \<open>
  C3. When \<^verbatim>\<open>native_query\<close> is called on a disconnected handler and the driver's open
  raises during the implicit \<^verbatim>\<open>connect\<close>, the exception leaves \<^verbatim>\<open>native_query\<close> (no
  envelope is returned), and the handler is still disconnected: apart from the outside
  world and the log of the one open call the state is the state before the call.
\<close>

theorem native_query_connect_raises:
  assumes "\<not> is_connected s"
      and "connect_args (connection_data s) = Inr (host, port, path, scheme, user, password)"
      and "drv_connect d host port path scheme user password (world s) = (Inl e, w)"
  shows "native_query d query s = (Inl e, s\<lparr>world := w, calls := calls s @ [Open]\<rparr>)
         \<and> \<not> is_connected (snd (native_query d query s))"
  using assms by (simp add: native_query_def connect_def log_call_def)

theorem native_query_connect_raises_witness:
  "\<not> is_connected fresh \<and>
   native_query (mock (Inl (Error ''connection refused'')) (Inr ()) (Inr []) (Inr []) (Inr ()))
       ''SELECT 1'' fresh
     = (Inl (Error ''connection refused''), fresh\<lparr>world := (), calls := calls fresh @ [Open]\<rparr>) \<and>
   \<not> is_connected (snd (native_query
       (mock (Inl (Error ''connection refused'')) (Inr ()) (Inr []) (Inr []) (Inr ()))
       ''SELECT 1'' fresh))"
  using native_query_connect_raises [of fresh "PStr ''localhost''" "PInt 8888"
      "PStr ''/druid/v2/sql/''" "PStr ''http''" PNone PNone
      "mock (Inl (Error ''connection refused'')) (Inr ()) (Inr []) (Inr []) (Inr ())"
      "Error ''connection refused''" "()" "''SELECT 1''"]
    connect_args_fresh
  by (simp add: fresh_def mock_def)

text \<open>
  C1. For every query string: when the connection is established already or the implicit
  \<^verbatim>\<open>connect\<close> succeeds (either way \<^verbatim>\<open>connect\<close> returns a connection \<open>c\<close>), and the
  cursor's \<^verbatim>\<open>execute\<close> raises \<open>e\<close>, or \<^verbatim>\<open>execute\<close> returns and \<^verbatim>\<open>fetchall\<close> raises
  \<open>e\<close>, or both return, no row was fetched and \<^verbatim>\<open>commit\<close> raises \<open>e\<close>, then
  \<^verbatim>\<open>native_query\<close> returns (it does not raise) an Error envelope whose message is
  \<^verbatim>\<open>str(e)\<close>.
\<close>

theorem native_query_error_envelope:
  assumes "connect d s = (Inr (Some c), s1)"
      and "conn_cursor d c (world s1) = (cur, w2)"
      and "cur_execute d cur query w2 = (Inl e, w)
           \<or> (\<exists>w3. cur_execute d cur query w2 = (Inr (), w3)
                \<and> (cur_fetchall d cur w3 = (Inl e, w)
                   \<or> (\<exists>w4. cur_fetchall d cur w3 = (Inr [], w4) \<and> conn_commit d c w4 = (Inl e, w))))"
  shows "\<exists>s'. native_query d query s =
           (Inr \<lparr>resp_type = ERROR, data_frame = None, error_message = Some (str e)\<rparr>, s')"
proof -
  have "\<exists>s3. try_query d c cur query (log_call (Cursor c) w2 s1) = (error_response e, s3)"
    using assms(3)
  proof (elim disjE exE conjE)
    assume "cur_execute d cur query w2 = (Inl e, w)"
    then show ?thesis using try_query_execute_raises[of d cur query "log_call (Cursor c) w2 s1" e w c] by simp
  next
    fix w3 assume "cur_execute d cur query w2 = (Inr (), w3)" "cur_fetchall d cur w3 = (Inl e, w)"
    then show ?thesis using try_query_fetchall_raises[of d cur query "log_call (Cursor c) w2 s1" "()" w3 e w c] by simp
  next
    fix w3 w4 assume "cur_execute d cur query w2 = (Inr (), w3)" "cur_fetchall d cur w3 = (Inr [], w4)"
      "conn_commit d c w4 = (Inl e, w)"
    then show ?thesis using try_query_commit[of d cur query "log_call (Cursor c) w2 s1" "()" w3 w4 c "Inl e" w] by simp
  qed
  then obtain s3 where "try_query d c cur query (log_call (Cursor c) w2 s1) = (error_response e, s3)" ..
  from native_query_after_connect[OF assms(1,2) this]
  show ?thesis by (auto simp: error_response_def)
qed

theorem native_query_error_envelope_witness:
  "connect (mock (Inr 5) (Inl (Error ''syntax error'')) (Inr []) (Inr []) (Inr ())) fresh
     = (Inr (Some 5), opened) \<and>
   cur_execute (mock (Inr 5) (Inl (Error ''syntax error'')) (Inr []) (Inr []) (Inr ())) 1 ''SELEC 1'' ()
     = (Inl (Error ''syntax error''), ()) \<and>
   (\<exists>s'. native_query (mock (Inr 5) (Inl (Error ''syntax error'')) (Inr []) (Inr []) (Inr ()))
            ''SELEC 1'' fresh
          = (Inr \<lparr>resp_type = ERROR, data_frame = None, error_message = Some ''syntax error''\<rparr>, s'))"
  using native_query_error_envelope
      [of "mock (Inr 5) (Inl (Error ''syntax error'')) (Inr []) (Inr []) (Inr ())" fresh 5 opened
          1 "()" "''SELEC 1''" "Error ''syntax error''" "()"]
    connect_fresh_ok [of "Inl (Error ''syntax error'')" "Inr []" "Inr []" "Inr ()"]
  by simp

text \<open>
  C4. A call of \<^verbatim>\<open>native_query\<close> that starts disconnected and whose implicit
  \<^verbatim>\<open>connect\<close> succeeds returns an envelope, whichever it is, and the handler is
  disconnected again at that point, the connection having been closed once. A call that
  starts connected leaves the handler connected, with the same connection, and makes no
  close call on a connection.
\<close>

theorem native_query_scoped_connection:
  "(\<not> is_connected s \<and> connect d s = (Inr h, s1) \<longrightarrow>
      (\<exists>r s'. native_query d query s = (Inr r, s') \<and> \<not> is_connected s'
          \<and> close_calls (calls s') = close_calls (calls s) + 1)) \<and>
   (is_connected s \<longrightarrow>
      is_connected (snd (native_query d query s))
      \<and> connection (snd (native_query d query s)) = connection s
      \<and> close_calls (calls (snd (native_query d query s))) = close_calls (calls s))"
proof (rule conjI; rule impI)
  assume a: "\<not> is_connected s \<and> connect d s = (Inr h, s1)"
  then obtain c where h: "h = Some c" using connect_success_handle by blast
  obtain cur w2 where cu: "conn_cursor d c (world s1) = (cur, w2)"
    by (cases "conn_cursor d c (world s1)")
  obtain r s3 where t: "try_query d c cur query (log_call (Cursor c) w2 s1) = (r, s3)"
    by (cases "try_query d c cur query (log_call (Cursor c) w2 s1)")
  from a h have "connect d s = (Inr (Some c), s1)" by simp
  from native_query_after_connect[OF this cu t] a
  show "\<exists>r s'. native_query d query s = (Inr r, s') \<and> \<not> is_connected s'
          \<and> close_calls (calls s') = close_calls (calls s) + 1"
    by auto
next
  assume "is_connected s"
  then show "is_connected (snd (native_query d query s))
      \<and> connection (snd (native_query d query s)) = connection s
      \<and> close_calls (calls (snd (native_query d query s))) = close_calls (calls s)"
    by (rule native_query_connected_frame)
qed

theorem native_query_scoped_connection_witness:
  "(\<exists>r s'. native_query (mock (Inr 5) (Inr ()) (Inr []) (Inr []) (Inr ())) ''SELECT 1'' fresh = (Inr r, s')
       \<and> \<not> is_connected s' \<and> close_calls (calls s') = 1) \<and>
   is_connected (snd (native_query (mock (Inr 5) (Inr ()) (Inr []) (Inr []) (Inr ())) ''SELECT 1'' opened)) \<and>
   connection (snd (native_query (mock (Inr 5) (Inr ()) (Inr []) (Inr []) (Inr ())) ''SELECT 1'' opened))
     = Some 5 \<and>
   close_calls (calls (snd (native_query (mock (Inr 5) (Inr ()) (Inr []) (Inr []) (Inr ())) ''SELECT 1'' opened)))
     = 0"
  using native_query_scoped_connection
      [of fresh "mock (Inr 5) (Inr ()) (Inr []) (Inr []) (Inr ())" "Some 5" opened "''SELECT 1''"]
    native_query_scoped_connection
      [of opened "mock (Inr 5) (Inr ()) (Inr []) (Inr []) (Inr ())" "Some 5" opened "''SELECT 1''"]
    connect_fresh_ok [of "Inr ()" "Inr []" "Inr []" "Inr ()"]
  by simp

text \<open>
  C5. For every query whose execution yields a non-empty row set, described by the
  cursor's column descriptors (one descriptor for each field of a row, which is what the
  driver's result metadata is), \<^verbatim>\<open>native_query\<close> returns a Table envelope whose column
  names are, in order, the first elements of the cursor's column descriptors, and whose
  rows are exactly the fetched rows in fetch order.
\<close>

theorem native_query_table:
  assumes "connect d s = (Inr (Some c), s1)"
      and "conn_cursor d c (world s1) = (cur, w2)"
      and "cur_execute d cur query w2 = (Inr (), w3)"
      and "cur_fetchall d cur w3 = (Inr result, w4)"
      and "result \<noteq> []"
      and "cur_description d cur w4 = (Inr description, w5)"
      and "list_all (\<lambda>r. length r = length description) result"
  shows "\<exists>s'. native_query d query s =
           (Inr \<lparr>resp_type = TABLE,
                 data_frame = Some \<lparr>columns = map fst description, rows = result\<rparr>,
                 error_message = None\<rparr>, s')"
proof -
  have df: "pd_DataFrame result (map fst description)
              = Inr \<lparr>columns = map fst description, rows = result\<rparr>"
    using assms(5,7) by (simp add: pd_DataFrame_rect)
  have "try_query d c cur query (log_call (Cursor c) w2 s1)
      = (table_response \<lparr>columns = map fst description, rows = result\<rparr>,
         log_call (Description cur) w5 (log_call (Fetchall cur) w4
           (log_call (Execute cur query) w3 (log_call (Cursor c) w2 s1))))"
    using assms(3,4,5,6) df by (intro try_query_rows) simp_all
  from native_query_after_connect[OF assms(1,2) this]
  show ?thesis by (auto simp: table_response_def)
qed

theorem native_query_table_witness:
  "[[PStr ''t1'', PStr ''TABLE'']] \<noteq> [] \<and>
   list_all (\<lambda>r. length r = length [(''TABLE_NAME'', []), (''TABLE_TYPE'', [])])
      [[PStr ''t1'', PStr ''TABLE'']] \<and>
   (\<exists>s'. native_query (mock (Inr 5) (Inr ()) (Inr [[PStr ''t1'', PStr ''TABLE'']])
                (Inr [(''TABLE_NAME'', []), (''TABLE_TYPE'', [])]) (Inr ())) ''SELECT 1'' fresh
          = (Inr \<lparr>resp_type = TABLE,
                   data_frame = Some \<lparr>columns = [''TABLE_NAME'', ''TABLE_TYPE''],
                                       rows = [[PStr ''t1'', PStr ''TABLE'']]\<rparr>,
                   error_message = None\<rparr>, s'))"
  using native_query_table
      [of "mock (Inr 5) (Inr ()) (Inr [[PStr ''t1'', PStr ''TABLE'']])
                (Inr [(''TABLE_NAME'', []), (''TABLE_TYPE'', [])]) (Inr ())" fresh 5 opened
          1 "()" "''SELECT 1''" "()" "[[PStr ''t1'', PStr ''TABLE'']]" "()"
          "[(''TABLE_NAME'', []), (''TABLE_TYPE'', [])]" "()"]
    connect_fresh_ok [of "Inr ()" "Inr [[PStr ''t1'', PStr ''TABLE'']]"
        "Inr [(''TABLE_NAME'', []), (''TABLE_TYPE'', [])]" "Inr ()"]
  by simp

text \<open>
  C6, as amended. For every query whose \<^verbatim>\<open>fetchall\<close> returns an empty result,
  \<^verbatim>\<open>native_query\<close> calls \<^verbatim>\<open>commit\<close> on the connection exactly once; when that call
  returns, \<^verbatim>\<open>native_query\<close> returns an Ok envelope with no payload, and when it raises
  \<open>e\<close>, an Error envelope with the message \<^verbatim>\<open>str(e)\<close>.
\<close>

theorem native_query_no_rows:
  assumes "connect d s = (Inr (Some c), s1)"
      and "conn_cursor d c (world s1) = (cur, w2)"
      and "cur_execute d cur query w2 = (Inr (), w3)"
      and "cur_fetchall d cur w3 = (Inr [], w4)"
      and "conn_commit d c w4 = (rc, w5)"
  shows "\<exists>s'. native_query d query s =
           (Inr (case rc of
                   Inl e \<Rightarrow> \<lparr>resp_type = ERROR, data_frame = None, error_message = Some (str e)\<rparr>
                 | Inr u \<Rightarrow> \<lparr>resp_type = OK, data_frame = None, error_message = None\<rparr>), s')
         \<and> commit_calls (calls s') = commit_calls (calls s) + 1"
proof -
  have s1: "commit_calls (calls s1) = commit_calls (calls s)"
    using connect_success[OF assms(1)] by simp
  have t: "try_query d c cur query (log_call (Cursor c) w2 s1)
      = (case rc of Inl e \<Rightarrow> error_response e | Inr u \<Rightarrow> ok_response,
         log_call (Commit c) w5 (log_call (Fetchall cur) w4
           (log_call (Execute cur query) w3 (log_call (Cursor c) w2 s1))))"
    using assms(3,4,5) by (intro try_query_commit) simp_all
  from native_query_after_connect[OF assms(1,2) t] s1
  show ?thesis by (cases rc) (auto simp: ok_response_def error_response_def)
qed

theorem native_query_no_rows_witness:
  "cur_fetchall (mock (Inr 5) (Inr ()) (Inr []) (Inr []) (Inr ())) 1 () = (Inr [], ()) \<and>
   conn_commit (mock (Inr 5) (Inr ()) (Inr []) (Inr []) (Inr ())) 5 () = (Inr (), ()) \<and>
   (\<exists>s'. native_query (mock (Inr 5) (Inr ()) (Inr []) (Inr []) (Inr ())) ''DROP TABLE t'' fresh
          = (Inr \<lparr>resp_type = OK, data_frame = None, error_message = None\<rparr>, s')
        \<and> commit_calls (calls s') = 1)"
  using native_query_no_rows
      [of "mock (Inr 5) (Inr ()) (Inr []) (Inr []) (Inr ())" fresh 5 opened 1 "()"
          "''DROP TABLE t''" "()" "()" "Inr ()" "()"]
    connect_fresh_ok [of "Inr ()" "Inr []" "Inr []" "Inr ()"]
  by simp

text \<open>
  An empty result alone does not give an Ok envelope: \<^verbatim>\<open>commit\<close> stands inside the
  \<^verbatim>\<open>try\<close>, and when it raises the envelope is an Error.
\<close>

theorem native_query_no_rows_counterexample:
  "cur_fetchall (mock (Inr 5) (Inr ()) (Inr []) (Inr []) (Inl (Error ''commit failed''))) 1 ()
     = (Inr [], ()) \<and>
   fst (native_query (mock (Inr 5) (Inr ()) (Inr []) (Inr []) (Inl (Error ''commit failed'')))
          ''DROP TABLE t'' fresh)
     = Inr \<lparr>resp_type = ERROR, data_frame = None, error_message = Some ''commit failed''\<rparr> \<and>
   fst (native_query (mock (Inr 5) (Inr ()) (Inr []) (Inr []) (Inl (Error ''commit failed'')))
          ''DROP TABLE t'' fresh)
     \<noteq> Inr \<lparr>resp_type = OK, data_frame = None, error_message = None\<rparr>"
  by (simp add: native_query_fresh try_query_def error_response_def)

section \<open>Schema introspection\<close>

text \<open>
  C2. The claim is that \<^verbatim>\<open>get_tables\<close> hands an Error envelope of the raw query
  executor on unchanged. The code does not: whenever \<^verbatim>\<open>native_query\<close> returns an
  envelope without a data frame (an Error envelope, and an Ok envelope too),
  \<^verbatim>\<open>get_tables\<close> subscripts \<^verbatim>\<open>None\<close> and raises \<^verbatim>\<open>TypeError\<close>; no envelope
  reaches the caller.
\<close>

theorem get_tables_error_raises:
  assumes "native_query d get_tables_query s = (Inr r, s1)" and "data_frame r = None"
  shows "get_tables d s = (Inl (TypeError (quote ''NoneType'' @ '' object is not subscriptable'')), s1)"
  using assms by (simp add: get_tables_def)

theorem get_tables_error_raises_witness:
  "(\<exists>s1. native_query (mock (Inr 5) (Inl (Error ''no such table'')) (Inr []) (Inr []) (Inr ()))
            get_tables_query fresh
          = (Inr \<lparr>resp_type = ERROR, data_frame = None, error_message = Some ''no such table''\<rparr>, s1)
        \<and> get_tables (mock (Inr 5) (Inl (Error ''no such table'')) (Inr []) (Inr []) (Inr ())) fresh
          = (Inl (TypeError (quote ''NoneType'' @ '' object is not subscriptable'')), s1))"
proof -
  obtain r s1 where n: "native_query (mock (Inr 5) (Inl (Error ''no such table'')) (Inr []) (Inr []) (Inr ()))
            get_tables_query fresh = (r, s1)"
    by (cases "native_query (mock (Inr 5) (Inl (Error ''no such table'')) (Inr []) (Inr []) (Inr ()))
            get_tables_query fresh")
  have "fst (native_query (mock (Inr 5) (Inl (Error ''no such table'')) (Inr []) (Inr []) (Inr ()))
            get_tables_query fresh)
        = Inr \<lparr>resp_type = ERROR, data_frame = None, error_message = Some ''no such table''\<rparr>"
    by (simp add: native_query_fresh try_query_def error_response_def)
  with n have r: "r = Inr \<lparr>resp_type = ERROR, data_frame = None, error_message = Some ''no such table''\<rparr>"
    by simp
  from get_tables_error_raises
      [of "mock (Inr 5) (Inl (Error ''no such table'')) (Inr []) (Inr []) (Inr ())" fresh
          "\<lparr>resp_type = ERROR, data_frame = None, error_message = Some ''no such table''\<rparr>" s1]
    n r
  show ?thesis by simp
qed

section \<open>Initialisation\<close>

text \<open>
  C9. For every configuration mapping (in particular one with \<^verbatim>\<open>host\<close> and \<^verbatim>\<open>port\<close>),
  initialisation succeeds and gives an effective configuration in which each of
  \<^verbatim>\<open>user\<close> and \<^verbatim>\<open>password\<close> that was omitted is present with the value \<^verbatim>\<open>None\<close>, an
  omitted \<^verbatim>\<open>path\<close> is \<^verbatim>\<open>/druid/v2/sql/\<close>, an omitted \<^verbatim>\<open>scheme\<close> is \<^verbatim>\<open>http\<close>, every
  supplied key keeps its supplied value, and no other key is added.
\<close>

theorem init_defaults:
  "\<exists>s. DruidHandler_init nm (Some cd) w = Inr s \<and>
     (cd ''user'' = None \<longrightarrow> connection_data s ''user'' = Some PNone) \<and>
     (cd ''password'' = None \<longrightarrow> connection_data s ''password'' = Some PNone) \<and>
     (cd ''path'' = None \<longrightarrow> connection_data s ''path'' = Some (PStr ''/druid/v2/sql/'')) \<and>
     (cd ''scheme'' = None \<longrightarrow> connection_data s ''scheme'' = Some (PStr ''http'')) \<and>
     (\<forall>k v. cd k = Some v \<longrightarrow> connection_data s k = Some v) \<and>
     (\<forall>k. cd k = None \<and> k \<noteq> ''user'' \<and> k \<noteq> ''password'' \<and> k \<noteq> ''path'' \<and> k \<noteq> ''scheme''
          \<longrightarrow> connection_data s k = None)"
  by (simp add: DruidHandler_init_def init_connection_data_apply)

theorem init_defaults_witness:
  "\<exists>s. DruidHandler_init ''druid'' (Some localhost_config) () = Inr s \<and>
     connection_data s ''user'' = Some PNone \<and>
     connection_data s ''password'' = Some PNone \<and>
     connection_data s ''path'' = Some (PStr ''/druid/v2/sql/'') \<and>
     connection_data s ''scheme'' = Some (PStr ''http'') \<and>
     connection_data s ''host'' = Some (PStr ''localhost'') \<and>
     connection_data s ''port'' = Some (PInt 8888)"
proof -
  have c: "localhost_config ''user'' = None" "localhost_config ''password'' = None"
    "localhost_config ''path'' = None" "localhost_config ''scheme'' = None"
    "localhost_config ''host'' = Some (PStr ''localhost'')"
    "localhost_config ''port'' = Some (PInt 8888)"
    by (simp_all add: localhost_config_def)
  from init_defaults [of "''druid''" localhost_config "()"] c
  show ?thesis by blast
qed

end
